theory Spec2Isabelle
  imports Complex_Main
begin

section \<open>Data model of SnakePage.tsx\<close>

text \<open>
  \<^verbatim>\<open>type Direction = 'down' | 'left' | 'up' | 'right'\<close>
\<close>

datatype Direction = Down | Left | Up | Right

text \<open>
  One entry of a segment's \<^verbatim>\<open>directionChanges\<close> array: the direction to adopt
  and the cell at which to adopt it.
\<close>

record DirectionChange =
  change_direction :: Direction
  change_position :: int

text \<open>
  \<^verbatim>\<open>interface Snake\<close>: one segment of the snake. Positions are JavaScript numbers that
  only ever hold integers, so they are modelled as \<open>int\<close>. The objects that
  \<^verbatim>\<open>moveSnake\<close> returns carry an additional \<^verbatim>\<open>isHead\<close> property that the interface does
  not declare; it is \<open>None\<close> on objects that were built without it.
\<close>

record Snake =
  direction :: Direction
  directionChanges :: "DirectionChange list"
  position :: int
  isHead :: "bool option"

text \<open>
  The three pieces of React state of the component: \<^verbatim>\<open>snake\<close>, \<^verbatim>\<open>apple\<close>,
  \<^verbatim>\<open>hasLost\<close>.
\<close>

record GameState =
  snake :: "Snake list"
  apple :: int
  hasLost :: bool

text \<open>
  What an operation does instead of returning: reading \<^verbatim>\<open>snake[0].direction\<close> of an
  empty array throws a \<^verbatim>\<open>TypeError\<close>; the loop of \<^verbatim>\<open>getAppleCell\<close> has not left
  within the supplied prefix of random draws.
\<close>

datatype error = TypeError | OutOfDraws

definition BOARD_SIZE :: int where
  "BOARD_SIZE = 12"

text \<open>
  The JavaScript remainder \<^verbatim>\<open>a % b\<close> on integers: it truncates towards zero, so the
  result has the sign of \<open>a\<close>.
\<close>

definition js_rem :: "int \<Rightarrow> int \<Rightarrow> int" where
  "js_rem a b = sgn a * (\<bar>a\<bar> mod \<bar>b\<bar>)"

section \<open>Geometry\<close>

fun getOneStepMove :: "Direction \<Rightarrow> int \<Rightarrow> int" where
  "getOneStepMove Down pos = pos + BOARD_SIZE"
| "getOneStepMove Left pos = pos - 1"
| "getOneStepMove Right pos = pos + 1"
| "getOneStepMove Up pos = pos - BOARD_SIZE"

text \<open>
  The column of a cell index, \<open>Col = index % N\<close> of the data model. On the cells of the
  board, and on every non-negative index, it is the JavaScript remainder
  (lemma \<open>col_js_rem\<close> below).
\<close>

definition col :: "int \<Rightarrow> int" where
  "col c = c mod BOARD_SIZE"

section \<open>Collision check\<close>

text \<open>
  \<^verbatim>\<open>willCollide({ nextDirection, snake })\<close>. The optional \<^verbatim>\<open>nextDirection\<close> is an
  \<open>option\<close>; every direction string is truthy, so \<^verbatim>\<open>nextDirection || headCell.direction\<close>
  is the default of an absent argument.
\<close>

definition willCollide :: "Direction option \<Rightarrow> Snake list \<Rightarrow> error + bool" where
  "willCollide nextDirection sn =
     (case sn of
        [] \<Rightarrow> Inl TypeError
      | headCell # _ \<Rightarrow>
          (let nextHeadPosition =
                 getOneStepMove
                   (case nextDirection of Some d \<Rightarrow> d | None \<Rightarrow> direction headCell)
                   (position headCell);
               isOffTop = nextHeadPosition < 0;
               isOffRight =
                 (js_rem nextHeadPosition BOARD_SIZE = 0 \<and>
                  position headCell = nextHeadPosition - 1);
               isOffBottom = nextHeadPosition \<ge> BOARD_SIZE ^ 2;
               isOffLeft =
                 (js_rem (position headCell) BOARD_SIZE = 0 \<and>
                  nextHeadPosition = position headCell - 1);
               isCollidingWithSelf =
                 (find (\<lambda>c. nextHeadPosition = position c) sn \<noteq> None)
           in Inr (isOffTop \<or> isOffRight \<or> isOffBottom \<or> isOffLeft \<or> isCollidingWithSelf)))"

section \<open>Moving the snake\<close>

text \<open>
  The part of the callback of \<^verbatim>\<open>snake.map\<close> in \<^verbatim>\<open>moveSnake\<close> after the head's
  turning branch. \<open>hdcp\<close> is the value of the variable
  \<^verbatim>\<open>headDirectionChangePosition\<close> when the callback runs (\<open>None\<close> for
  \<^verbatim>\<open>undefined\<close>), \<open>isHd\<close> is \<^verbatim>\<open>i === 0\<close>.
\<close>

definition moveCell :: "Direction \<Rightarrow> int option \<Rightarrow> bool \<Rightarrow> Snake \<Rightarrow> Snake" where
  "moveCell nextDirection hdcp isHd c =
     (let nextPosition = getOneStepMove (direction c) (position c);
          newDirectionChanges =
            (case hdcp of
               Some headDirectionChangePosition \<Rightarrow>
                 directionChanges c @
                   [\<lparr>change_direction = nextDirection,
                     change_position = headDirectionChangePosition\<rparr>]
             | None \<Rightarrow> directionChanges c)
      in case find (\<lambda>m. change_position m = nextPosition) newDirectionChanges of
           Some currentDirectionChange \<Rightarrow>
             \<lparr>direction = change_direction currentDirectionChange,
              directionChanges =
                filter (\<lambda>m. change_position m \<noteq> nextPosition) newDirectionChanges,
              position = nextPosition,
              isHead = Some isHd\<rparr>
         | None \<Rightarrow>
             \<lparr>direction = direction c,
              directionChanges = newDirectionChanges,
              position = nextPosition,
              isHead = Some isHd\<rparr>)"

text \<open>
  The \<^verbatim>\<open>map\<close> itself, left to right, with the index \<open>i\<close> and the variable
  \<^verbatim>\<open>headDirectionChangePosition\<close> threaded through the calls.
\<close>

fun moveCells :: "Direction \<Rightarrow> nat \<Rightarrow> int option \<Rightarrow> Snake list \<Rightarrow> Snake list" where
  "moveCells nextDirection i hdcp [] = []"
| "moveCells nextDirection i hdcp (c # cs) =
     (if i = 0 \<and> direction c \<noteq> nextDirection
      then \<lparr>direction = nextDirection,
            directionChanges = [],
            position = getOneStepMove nextDirection (position c),
            isHead = Some True\<rparr>
           # moveCells nextDirection (Suc i) (Some (position c)) cs
      else moveCell nextDirection hdcp (i = 0) c
           # moveCells nextDirection (Suc i) hdcp cs)"

definition moveSnake :: "Direction \<Rightarrow> Snake list \<Rightarrow> Snake list" where
  "moveSnake nextDirection sn = moveCells nextDirection 0 None sn"

section \<open>Apple placement\<close>

text \<open>
  \<^verbatim>\<open>Math.floor(Math.random() * (Math.pow(BOARD_SIZE, 2) - 1))\<close>, with the value of
  \<^verbatim>\<open>Math.random()\<close>, a number \<open>u\<close> with \<open>0 \<le> u < 1\<close>, as an argument. The product is
  taken in exact arithmetic; in floating point, too, the results are the integers from
  0 to 142.
\<close>

definition getRandomCell :: "real \<Rightarrow> int" where
  "getRandomCell u = \<lfloor>u * (of_int BOARD_SIZE ^ 2 - 1)\<rfloor>"

definition validDraws :: "real list \<Rightarrow> bool" where
  "validDraws draws = list_all (\<lambda>u. 0 \<le> u \<and> u < 1) draws"

definition isOverlappingSnakeCell :: "Snake list \<Rightarrow> int \<Rightarrow> bool" where
  "isOverlappingSnakeCell sn cell = (find (\<lambda>c. position c = cell) sn \<noteq> None)"

text \<open>
  The \<^verbatim>\<open>while\<close> loop of \<^verbatim>\<open>getAppleCell\<close>: \<open>appleCell\<close> is the current candidate,
  the list holds the values the following calls of \<^verbatim>\<open>Math.random()\<close> return. The
  loop that has used all of them without leaving yields \<open>Inl OutOfDraws\<close>.
\<close>

fun getAppleLoop :: "Snake list \<Rightarrow> int \<Rightarrow> real list \<Rightarrow> error + int" where
  "getAppleLoop sn appleCell [] =
     (if isOverlappingSnakeCell sn appleCell then Inl OutOfDraws else Inr appleCell)"
| "getAppleLoop sn appleCell (u # us) =
     (if isOverlappingSnakeCell sn appleCell
      then getAppleLoop sn (getRandomCell u) us
      else Inr appleCell)"

definition getAppleCell :: "Snake list \<Rightarrow> real list \<Rightarrow> error + int" where
  "getAppleCell sn draws =
     (case draws of
        [] \<Rightarrow> Inl OutOfDraws
      | u # us \<Rightarrow> getAppleLoop sn (getRandomCell u) us)"

section \<open>The component: initial state, key presses, timer, growth\<close>

text \<open>
  The initialiser of the \<^verbatim>\<open>snake\<close> state: the head at
  \<^verbatim>\<open>4 + BOARD_SIZE * Math.floor(BOARD_SIZE / 2)\<close> and three more segments to its left,
  all moving right. The pushed objects have no \<^verbatim>\<open>isHead\<close> property.
\<close>

definition initialSnake :: "Snake list" where
  "initialSnake =
     (let headPosition = 4 + BOARD_SIZE * (BOARD_SIZE div 2)
      in map (\<lambda>i. \<lparr>direction = Right, directionChanges = [],
                     position = headPosition - int i, isHead = None\<rparr>) [0..<4])"

text \<open>
  The state after mounting: the initial snake, the apple that \<^verbatim>\<open>getAppleCell(snake)\<close>
  returned, \<^verbatim>\<open>hasLost\<close> false. The growth effect also runs on mounting and finds
  nothing to eat, since that apple is on no segment.
\<close>

definition initialState :: "int \<Rightarrow> GameState" where
  "initialState a = \<lparr>snake = initialSnake, apple = a, hasLost = False\<rparr>"

text \<open>The test of \<^verbatim>\<open>onKeyDown\<close> for a request that reverses the head.\<close>

definition isReverse :: "Direction \<Rightarrow> Direction \<Rightarrow> bool" where
  "isReverse headDirection nextDirection =
     ((headDirection = Up \<and> nextDirection = Down) \<or>
      (headDirection = Down \<and> nextDirection = Up) \<or>
      (headDirection = Left \<and> nextDirection = Right) \<or>
      (headDirection = Right \<and> nextDirection = Left))"

text \<open>
  The state update of \<^verbatim>\<open>onKeyDown\<close> for an arrow key, which \<^verbatim>\<open>KEYS_TO_DIRECTION\<close>
  maps to \<open>nextDirection\<close> (any other key does nothing): the updater passed to
  \<^verbatim>\<open>setSnake\<close> together with its call of \<^verbatim>\<open>setHasLost\<close>. The handler is
  registered once and does not read \<^verbatim>\<open>hasLost\<close>.
\<close>

definition onKeyDown :: "Direction \<Rightarrow> GameState \<Rightarrow> error + GameState" where
  "onKeyDown nextDirection s =
     (case snake s of
        [] \<Rightarrow> Inl TypeError
      | headCell # _ \<Rightarrow>
          (if isReverse (direction headCell) nextDirection then Inr s
           else case willCollide (Some nextDirection) (snake s) of
                  Inl e \<Rightarrow> Inl e
                | Inr True \<Rightarrow> Inr (s\<lparr>hasLost := True\<rparr>)
                | Inr False \<Rightarrow> Inr (s\<lparr>snake := moveSnake nextDirection (snake s)\<rparr>)))"

text \<open>
  The callback of \<^verbatim>\<open>window.setInterval\<close>. \<^verbatim>\<open>headDirection\<close> is
  \<^verbatim>\<open>snake[0].direction\<close> of the render that installed the interval, and the effect
  re-installs it whenever that value changes, so it is the head direction of the
  current state.
\<close>

definition onInterval :: "GameState \<Rightarrow> error + GameState" where
  "onInterval s =
     (case snake s of
        [] \<Rightarrow> Inl TypeError
      | headCell # _ \<Rightarrow>
          (case willCollide None (snake s) of
             Inl e \<Rightarrow> Inl e
           | Inr True \<Rightarrow> Inr (s\<lparr>hasLost := True\<rparr>)
           | Inr False \<Rightarrow> Inr (s\<lparr>snake := moveSnake (direction headCell) (snake s)\<rparr>)))"

text \<open>
  The cell behind the last segment, as the growth effect computes it from the last
  segment's direction.
\<close>

fun behindLastCell :: "Direction \<Rightarrow> int \<Rightarrow> int" where
  "behindLastCell Down lastCellPosition = lastCellPosition - BOARD_SIZE"
| "behindLastCell Left lastCellPosition = lastCellPosition + 1"
| "behindLastCell Right lastCellPosition = lastCellPosition - 1"
| "behindLastCell Up lastCellPosition = lastCellPosition + BOARD_SIZE"

text \<open>
  The body of the effect that checks for an eaten apple:
  \<^verbatim>\<open>if (headPosition && headPosition === apple)\<close> and, inside, the updater passed to
  \<^verbatim>\<open>setSnake\<close> with its call of \<^verbatim>\<open>setApple\<close>. A number is truthy when it is not
  zero.
\<close>

definition eatApple :: "real list \<Rightarrow> GameState \<Rightarrow> error + GameState" where
  "eatApple draws s =
     (case snake s of
        [] \<Rightarrow> Inl TypeError
      | headCell # _ \<Rightarrow>
          (let headPosition = position headCell in
           if headPosition \<noteq> 0 \<and> headPosition = apple s
           then (let lastCell = last (snake s);
                     lastCellPosition =
                       behindLastCell (direction lastCell) (position lastCell);
                     newSnake = snake s @ [lastCell\<lparr>position := lastCellPosition\<rparr>]
                 in case getAppleCell newSnake draws of
                      Inl e \<Rightarrow> Inl e
                    | Inr a \<Rightarrow> Inr (s\<lparr>snake := newSnake, apple := a\<rparr>))
           else Inr s))"

text \<open>
  The effect has the dependencies \<^verbatim>\<open>[apple, headPosition]\<close>: after an update from
  \<open>old\<close> to \<open>new\<close> React runs it only when one of the two values differs.
\<close>

definition growthEffect :: "real list \<Rightarrow> GameState \<Rightarrow> GameState \<Rightarrow> error + GameState" where
  "growthEffect draws old new =
     (case (snake old, snake new) of
        (oldHead # _, newHead # _) \<Rightarrow>
          (if apple new = apple old \<and> position newHead = position oldHead
           then Inr new
           else eatApple draws new)
      | _ \<Rightarrow> Inl TypeError)"

text \<open>
  The two entry points. A key press runs the handler's update and then the effects of
  the render it causes. The timer exists only while \<^verbatim>\<open>hasLost\<close> is false (the
  effect that installs it returns early otherwise), so a tick of a lost game changes
  nothing. \<open>draws\<close> are the values \<^verbatim>\<open>Math.random()\<close> returns during the event.
\<close>

definition requestDirectionChange ::
    "Direction \<Rightarrow> real list \<Rightarrow> GameState \<Rightarrow> error + GameState" where
  "requestDirectionChange nextDirection draws s =
     (case onKeyDown nextDirection s of
        Inl e \<Rightarrow> Inl e
      | Inr s' \<Rightarrow> growthEffect draws s s')"

definition advanceTick :: "real list \<Rightarrow> GameState \<Rightarrow> error + GameState" where
  "advanceTick draws s =
     (if hasLost s then Inr s
      else case onInterval s of
             Inl e \<Rightarrow> Inl e
           | Inr s' \<Rightarrow> growthEffect draws s s')"

datatype Event = KeyDown Direction | Tick

fun step :: "Event \<Rightarrow> real list \<Rightarrow> GameState \<Rightarrow> error + GameState" where
  "step (KeyDown nextDirection) draws s = requestDirectionChange nextDirection draws s"
| "step Tick draws s = advanceTick draws s"

text \<open>
  The states the component can be in: after mounting, and after any event from such a
  state, with any values of \<^verbatim>\<open>Math.random()\<close>.
\<close>

inductive reachable :: "GameState \<Rightarrow> bool" where
  reachable_init:
    "validDraws draws \<Longrightarrow> getAppleCell initialSnake draws = Inr a
       \<Longrightarrow> reachable (initialState a)"
| reachable_step:
    "reachable s \<Longrightarrow> validDraws draws \<Longrightarrow> step ev draws s = Inr s'
       \<Longrightarrow> reachable s'"

section \<open>Notions used in the statements\<close>

text \<open>The offset one step in a direction adds to a cell index.\<close>

definition stepOf :: "Direction \<Rightarrow> int" where
  "stepOf d = getOneStepMove d 0"

text \<open>
  A straight snake with nothing pending: every segment moves in direction \<open>d\<close>, has
  an empty \<^verbatim>\<open>directionChanges\<close>, and is one step behind the segment before it; the
  head is on cell \<open>p\<close>. This is a snake whose head has not turned, or whose earlier
  turns have all passed the last segment.
\<close>

fun straightBehind :: "Direction \<Rightarrow> int \<Rightarrow> Snake list \<Rightarrow> bool" where
  "straightBehind d q [] = True"
| "straightBehind d q (c # cs) =
     (direction c = d \<and> directionChanges c = [] \<and> getOneStepMove d (position c) = q \<and>
      straightBehind d (position c) cs)"

definition straightSnake :: "Direction \<Rightarrow> int \<Rightarrow> Snake list \<Rightarrow> bool" where
  "straightSnake d p sn =
     (case sn of
        [] \<Rightarrow> False
      | headCell # cs \<Rightarrow>
          direction headCell = d \<and> directionChanges headCell = [] \<and> position headCell = p \<and>
          straightBehind d p cs)"

text \<open>
  Segment \<open>i\<close> of such a snake \<open>j \<ge> 1\<close> moves after its head turned from \<open>d\<close> to
  \<open>d'\<close> on cell \<open>p\<close> (used in the proofs only).
\<close>

definition afterTurn :: "Direction \<Rightarrow> Direction \<Rightarrow> int \<Rightarrow> nat \<Rightarrow> nat \<Rightarrow> Snake" where
  "afterTurn d d' p j i =
     \<lparr>direction = (if j < i then d else d'),
      directionChanges =
        (if j < i then [\<lparr>change_direction = d', change_position = p\<rparr>] else []),
      position =
        (if j < i then p - int (i - j) * stepOf d else p + int (j - i) * stepOf d'),
      isHead = Some (i = 0)\<rparr>"

text \<open>The snake has a head, and the head has no pending turn.\<close>

definition headQueueEmpty :: "Snake list \<Rightarrow> bool" where
  "headQueueEmpty sn =
     (case sn of [] \<Rightarrow> False | headCell # _ \<Rightarrow> directionChanges headCell = [])"

text \<open>The array \<^verbatim>\<open>newSnake\<close> that the growth effect builds from \<open>sn\<close>.\<close>

definition grownSnake :: "Snake list \<Rightarrow> Snake list" where
  "grownSnake sn =
     sn @ [(last sn)\<lparr>position := behindLastCell (direction (last sn)) (position (last sn))\<rparr>]"

text \<open>A sequence of events, each with the random values drawn during it.\<close>

fun run :: "(Event \<times> real list) list \<Rightarrow> GameState \<Rightarrow> error + GameState" where
  "run [] s = Inr s"
| "run ((ev, draws) # es) s =
     (case step ev draws s of Inl e \<Rightarrow> Inl e | Inr s' \<Rightarrow> run es s')"

section \<open>Concrete states used below\<close>

text \<open>
  A snake of four segments in row 6 whose head is in the last column (cell 83), moving
  right, as seven timer ticks leave the initial snake.
\<close>

definition snakeAtRightEdge :: "Snake list" where
  "snakeAtRightEdge =
     [\<lparr>direction = Right, directionChanges = [], position = 83, isHead = Some True\<rparr>,
      \<lparr>direction = Right, directionChanges = [], position = 82, isHead = Some False\<rparr>,
      \<lparr>direction = Right, directionChanges = [], position = 81, isHead = Some False\<rparr>,
      \<lparr>direction = Right, directionChanges = [], position = 80, isHead = Some False\<rparr>]"

text \<open>A game that was lost at the right edge.\<close>

definition lostAtRightEdge :: GameState where
  "lostAtRightEdge = \<lparr>snake = snakeAtRightEdge, apple = 5, hasLost = True\<rparr>"

text \<open>The initial snake after one step to the right.\<close>

definition snakeAfterFirstTick :: "Snake list" where
  "snakeAfterFirstTick =
     [\<lparr>direction = Right, directionChanges = [], position = 77, isHead = Some True\<rparr>,
      \<lparr>direction = Right, directionChanges = [], position = 76, isHead = Some False\<rparr>,
      \<lparr>direction = Right, directionChanges = [], position = 75, isHead = Some False\<rparr>,
      \<lparr>direction = Right, directionChanges = [], position = 74, isHead = Some False\<rparr>]"

text \<open>A snake in row 0 moving left, its head on cell 1.\<close>

definition snakeBesideCorner :: "Snake list" where
  "snakeBesideCorner =
     [\<lparr>direction = Left, directionChanges = [], position = 1, isHead = Some True\<rparr>,
      \<lparr>direction = Left, directionChanges = [], position = 2, isHead = Some False\<rparr>,
      \<lparr>direction = Left, directionChanges = [], position = 3, isHead = Some False\<rparr>,
      \<lparr>direction = Left, directionChanges = [], position = 4, isHead = Some False\<rparr>]"

text \<open>A snake of 143 segments on the cells 0 to 142; cell 143 alone is free.\<close>

definition snakeOnAllButLastCell :: "Snake list" where
  "snakeOnAllButLastCell =
     map (\<lambda>i. \<lparr>direction = Right, directionChanges = [], position = int i, isHead = None\<rparr>)
       [0..<143]"

text \<open>
  Seven events from the initial state with the apple on 77: two ticks that each eat an
  apple (the random values 281/512 and 81/128 put the next apples on
  \<^verbatim>\<open>Math.floor(281 / 512 * 143)\<close>, which is 78, and on
  \<^verbatim>\<open>Math.floor(81 / 128 * 143)\<close>, which is 90), then Up, Right, Down, a tick and Left,
  which lead the head around a square onto cell 90.
\<close>

definition loopTrace :: "(Event \<times> real list) list" where
  "loopTrace =
     [(Tick, [281 / 512]), (Tick, [81 / 128]), (KeyDown Up, []), (KeyDown Right, []),
      (KeyDown Down, []), (Tick, []), (KeyDown Left, [0])]"

definition snakeAfterLoop :: "Snake list" where
  "snakeAfterLoop =
     [\<lparr>direction = Left, directionChanges = [], position = 90, isHead = Some True\<rparr>,
      \<lparr>direction = Left, directionChanges = [], position = 91, isHead = Some False\<rparr>,
      \<lparr>direction = Down,
       directionChanges = [\<lparr>change_direction = Left, change_position = 91\<rparr>],
       position = 79, isHead = Some False\<rparr>,
      \<lparr>direction = Down,
       directionChanges = [\<lparr>change_direction = Left, change_position = 91\<rparr>],
       position = 67, isHead = Some False\<rparr>,
      \<lparr>direction = Right,
       directionChanges =
         [\<lparr>change_direction = Down, change_position = 67\<rparr>,
          \<lparr>change_direction = Left, change_position = 91\<rparr>],
       position = 66, isHead = Some False\<rparr>,
      \<lparr>direction = Up,
       directionChanges =
         [\<lparr>change_direction = Right, change_position = 66\<rparr>,
          \<lparr>change_direction = Down, change_position = 67\<rparr>,
          \<lparr>change_direction = Left, change_position = 91\<rparr>],
       position = 78, isHead = Some False\<rparr>,
      \<lparr>direction = Up,
       directionChanges =
         [\<lparr>change_direction = Right, change_position = 66\<rparr>,
          \<lparr>change_direction = Down, change_position = 67\<rparr>,
          \<lparr>change_direction = Left, change_position = 91\<rparr>],
       position = 90, isHead = Some False\<rparr>]"

text \<open>The initial state with the apple on 71, after the Up key.\<close>

definition stateAfterUpKey :: GameState where
  "stateAfterUpKey =
     \<lparr>snake =
        [\<lparr>direction = Up, directionChanges = [], position = 64, isHead = Some True\<rparr>,
         \<lparr>direction = Up, directionChanges = [], position = 76, isHead = Some False\<rparr>,
         \<lparr>direction = Right,
          directionChanges = [\<lparr>change_direction = Up, change_position = 76\<rparr>],
          position = 75, isHead = Some False\<rparr>,
         \<lparr>direction = Right,
          directionChanges = [\<lparr>change_direction = Up, change_position = 76\<rparr>],
          position = 74, isHead = Some False\<rparr>],
      apple = 71, hasLost = False\<rparr>"

section \<open>Basic facts\<close>

lemma initialSnake_eq:
  "initialSnake =
     [\<lparr>direction = Right, directionChanges = [], position = 76, isHead = None\<rparr>,
      \<lparr>direction = Right, directionChanges = [], position = 75, isHead = None\<rparr>,
      \<lparr>direction = Right, directionChanges = [], position = 74, isHead = None\<rparr>,
      \<lparr>direction = Right, directionChanges = [], position = 73, isHead = None\<rparr>]"
  by (simp add: initialSnake_def BOARD_SIZE_def upt_rec)

text \<open>
  \<^verbatim>\<open>x % BOARD_SIZE === 0\<close> holds exactly when \<open>BOARD_SIZE\<close> divides \<open>x\<close>, also for a
  negative \<open>x\<close> (the remainder is then \<^verbatim>\<open>-0\<close>, which is \<^verbatim>\<open>=== 0\<close>).
\<close>

lemma js_rem_eq_0_iff: "js_rem a BOARD_SIZE = 0 \<longleftrightarrow> a mod BOARD_SIZE = 0"
proof -
  have "\<bar>a\<bar> mod 12 = 0 \<longleftrightarrow> a mod 12 = 0"
    by presburger
  moreover have "a = 0 \<Longrightarrow> a mod 12 = 0"
    by simp
  ultimately show ?thesis
    by (auto simp: js_rem_def BOARD_SIZE_def sgn_if)
qed

lemma col_js_rem: "0 \<le> c \<Longrightarrow> js_rem c BOARD_SIZE = col c"
  by (simp add: js_rem_def col_def BOARD_SIZE_def sgn_if)

lemma find_position_iff:
  "(\<exists>y. find (\<lambda>c. n = position c) sn = Some y) \<longleftrightarrow> (\<exists>c\<in>set sn. position c = n)"
proof -
  have "(find (\<lambda>c. n = position c) sn \<noteq> None) \<longleftrightarrow> (\<exists>c\<in>set sn. position c = n)"
    by (auto simp: find_None_iff)
  then show ?thesis
    by simp
qed

lemma offRight_iff:
  "(getOneStepMove dir p mod BOARD_SIZE = 0 \<and> p = getOneStepMove dir p - 1)
   \<longleftrightarrow> (col (getOneStepMove dir p) = 0 \<and> col p = BOARD_SIZE - 1 \<and> dir = Right)"
  by (cases dir) (auto simp: col_def BOARD_SIZE_def, presburger+)

lemma offLeft_iff:
  "(p mod BOARD_SIZE = 0 \<and> getOneStepMove dir p = p - 1)
   \<longleftrightarrow> (col p = 0 \<and> dir = Left \<and> getOneStepMove dir p = p - 1)"
  by (cases dir) (auto simp: col_def BOARD_SIZE_def)

text \<open>
  An update that leaves the apple and the head's position as they were does not run the
  growth effect.
\<close>

lemma growthEffect_hasLost:
  "snake s \<noteq> [] \<Longrightarrow> growthEffect draws s (s\<lparr>hasLost := b\<rparr>) = Inr (s\<lparr>hasLost := b\<rparr>)"
  by (cases "snake s") (simp_all add: growthEffect_def)

lemma growthEffect_refl: "snake s \<noteq> [] \<Longrightarrow> growthEffect draws s s = Inr s"
  by (cases "snake s") (simp_all add: growthEffect_def)

section \<open>Facts about moving and growing\<close>

lemma getOneStepMove_stepOf: "getOneStepMove d x = x + stepOf d"
  by (cases d) (simp_all add: stepOf_def)

lemma stepOf_nonzero: "stepOf d \<noteq> 0"
  by (cases d) (simp_all add: stepOf_def BOARD_SIZE_def)

lemma behindLastCell_inverse: "getOneStepMove d (behindLastCell d x) = x"
  by (cases d) simp_all

lemma moveCells_length [simp]: "length (moveCells nd i hdcp sn) = length sn"
  by (induction sn arbitrary: i hdcp) simp_all

lemma moveSnake_length [simp]: "length (moveSnake nd sn) = length sn"
  by (simp add: moveSnake_def)

text \<open>Behind the head the index is never 0, so the \<^verbatim>\<open>map\<close> is a plain one.\<close>

lemma moveCells_Suc: "moveCells nd (Suc k) hdcp cs = map (moveCell nd hdcp False) cs"
  by (induction cs arbitrary: k) simp_all

lemma moveSnake_Cons:
  "moveSnake nd (c # cs) =
     (if direction c \<noteq> nd
      then \<lparr>direction = nd, directionChanges = [],
            position = getOneStepMove nd (position c), isHead = Some True\<rparr>
           # map (moveCell nd (Some (position c)) False) cs
      else moveCell nd None True c # map (moveCell nd None False) cs)"
  by (simp add: moveSnake_def moveCells_Suc)

lemma moveCell_position:
  "position (moveCell nd hdcp b c) = getOneStepMove (direction c) (position c)"
  by (simp add: moveCell_def Let_def split: option.splits)

lemma moveSnake_head_position:
  "position (hd (moveSnake nd (c # cs))) =
     getOneStepMove (if direction c \<noteq> nd then nd else direction c) (position c)"
  by (simp add: moveSnake_Cons moveCell_position)

lemma moveSnake_not_Nil: "moveSnake nd (c # cs) \<noteq> []"
  by (simp add: moveSnake_Cons)

lemma isOverlappingSnakeCell_iff:
  "isOverlappingSnakeCell sn cell \<longleftrightarrow> cell \<in> position ` set sn"
  by (auto simp: isOverlappingSnakeCell_def find_None_iff)

text \<open>What the body of the growth effect does, case by case.\<close>

lemma eatApple_on_apple:
  assumes "snake s = c # cs" and "position c = apple s" and "apple s \<noteq> 0"
    and "getAppleCell (grownSnake (snake s)) draws = Inr a'"
  shows "eatApple draws s = Inr (s\<lparr>snake := grownSnake (snake s), apple := a'\<rparr>)"
  using assms by (simp add: eatApple_def grownSnake_def Let_def)

lemma eatApple_off_apple:
  assumes "snake s = c # cs" and "position c \<noteq> apple s \<or> apple s = 0"
  shows "eatApple draws s = Inr s"
  using assms by (auto simp add: eatApple_def Let_def)

text \<open>
  The grown snake: the old segments unchanged, and one more that copies the last one
  and lies one step behind it, against the last segment's direction.
\<close>

lemma grownSnake_facts:
  "length (grownSnake sn) = Suc (length sn) \<and> butlast (grownSnake sn) = sn \<and>
   direction (last (grownSnake sn)) = direction (last sn) \<and>
   directionChanges (last (grownSnake sn)) = directionChanges (last sn) \<and>
   getOneStepMove (direction (last sn)) (position (last (grownSnake sn)))
     = position (last sn)"
  by (simp add: grownSnake_def behindLastCell_inverse)

lemma eatApple_snake:
  "eatApple draws s = Inr s' \<Longrightarrow> snake s' = snake s \<or> (\<exists>c. snake s' = snake s @ [c])"
  by (auto simp: eatApple_def Let_def split: list.splits if_splits sum.splits)

lemma growthEffect_cases:
  "growthEffect draws old new = Inr s' \<Longrightarrow> s' = new \<or> eatApple draws new = Inr s'"
  by (auto simp: growthEffect_def split: list.splits if_splits)

text \<open>A move changes the head's position, so the growth effect runs after it.\<close>

lemma growthEffect_after_move:
  assumes "snake s = c # cs"
  shows "growthEffect draws s (s\<lparr>snake := moveSnake nd (snake s)\<rparr>)
           = eatApple draws (s\<lparr>snake := moveSnake nd (snake s)\<rparr>)"
proof -
  obtain c' cs' where m: "moveSnake nd (c # cs) = c' # cs'"
    using moveSnake_not_Nil [of nd c cs] by (cases "moveSnake nd (c # cs)") simp_all
  have "position c' \<noteq> position c"
    using moveSnake_head_position [of nd c cs] m stepOf_nonzero
    by (auto simp: getOneStepMove_stepOf)
  then show ?thesis
    using assms m by (simp add: growthEffect_def)
qed

text \<open>
  Without a collision both entry points are \<open>moveSnake\<close> followed by the body of the
  growth effect: a tick moves in the head's direction, a key press in the requested one.
\<close>

lemma advanceTick_moves:
  assumes "\<not> hasLost s" and "snake s = c # cs" and "willCollide None (snake s) = Inr False"
  shows "advanceTick draws s =
           eatApple draws (s\<lparr>snake := moveSnake (direction c) (snake s)\<rparr>)"
  using assms growthEffect_after_move [OF assms(2)]
  by (simp add: advanceTick_def onInterval_def)

lemma requestDirectionChange_moves:
  assumes "snake s = c # cs" and "\<not> isReverse (direction c) nd"
    and "willCollide (Some nd) (snake s) = Inr False"
  shows "requestDirectionChange nd draws s =
           eatApple draws (s\<lparr>snake := moveSnake nd (snake s)\<rparr>)"
  using assms growthEffect_after_move [OF assms(1)]
  by (simp add: requestDirectionChange_def onKeyDown_def)

lemmas eval_defs = requestDirectionChange_def advanceTick_def onKeyDown_def onInterval_def
  isReverse_def willCollide_def BOARD_SIZE_def js_rem_def moveSnake_def moveCell_def
  growthEffect_def eatApple_def getAppleCell_def getRandomCell_def isOverlappingSnakeCell_def

section \<open>Facts about apple placement\<close>

lemma getRandomCell_range:
  assumes "0 \<le> u" and "u < 1"
  shows "0 \<le> getRandomCell u \<and> getRandomCell u < BOARD_SIZE ^ 2 - 1"
proof -
  have "0 \<le> u * 143" "u * 143 < 143"
    using assms by simp_all
  then have "0 \<le> \<lfloor>u * 143\<rfloor>" "\<lfloor>u * 143\<rfloor> < 143"
    by (simp_all add: floor_less_iff)
  then show ?thesis
    by (simp add: getRandomCell_def BOARD_SIZE_def)
qed

lemma getRandomCell_of_cell: "getRandomCell (real_of_int c / 143) = c"
  by (simp add: getRandomCell_def BOARD_SIZE_def)

lemma validDraws_cell: "0 \<le> c \<Longrightarrow> c < 143 \<Longrightarrow> validDraws [real_of_int c / 143]"
  by (simp add: validDraws_def)

lemma getAppleLoop_result:
  "getAppleLoop sn c us = Inr a \<Longrightarrow>
     \<not> isOverlappingSnakeCell sn a \<and> (a = c \<or> a \<in> getRandomCell ` set us)"
  by (induction us arbitrary: c) (auto split: if_splits)

text \<open>
  What \<open>getAppleCell\<close> returns is a cell that no segment is on, and one of the cells 0
  to 142.
\<close>

lemma getAppleCell_result:
  assumes "validDraws draws" and "getAppleCell sn draws = Inr a"
  shows "0 \<le> a \<and> a < BOARD_SIZE ^ 2 - 1 \<and> \<not> isOverlappingSnakeCell sn a"
proof -
  obtain u us where d: "draws = u # us" and l: "getAppleLoop sn (getRandomCell u) us = Inr a"
    using assms(2) by (cases draws) (simp_all add: getAppleCell_def)
  from getAppleLoop_result [OF l]
  have "\<not> isOverlappingSnakeCell sn a" and "a \<in> getRandomCell ` set draws"
    using d by auto
  moreover have "\<forall>v\<in>set draws. 0 \<le> v \<and> v < 1"
    using assms(1) by (simp add: validDraws_def list_all_iff)
  ultimately show ?thesis
    using getRandomCell_range by blast
qed

text \<open>With a free cell among 0 to 142, a first draw that hits it ends the loop at once.\<close>

lemma getAppleCell_free_cell:
  assumes "\<not> isOverlappingSnakeCell sn c"
  shows "getAppleCell sn (real_of_int c / 143 # us) = Inr c"
  using assms by (cases us) (simp_all add: getAppleCell_def getRandomCell_of_cell)

lemma getAppleLoop_all_occupied:
  assumes "\<forall>c. 0 \<le> c \<and> c < BOARD_SIZE ^ 2 - 1 \<longrightarrow> isOverlappingSnakeCell sn c"
  shows "validDraws us \<Longrightarrow> isOverlappingSnakeCell sn c
     \<Longrightarrow> getAppleLoop sn c us = Inl OutOfDraws"
proof (induction us arbitrary: c)
  case Nil
  then show ?case by simp
next
  case (Cons u us)
  then have "0 \<le> u" "u < 1" "validDraws us"
    by (simp_all add: validDraws_def)
  then have "isOverlappingSnakeCell sn (getRandomCell u)"
    using assms getRandomCell_range by blast
  with Cons \<open>validDraws us\<close> show ?case
    by simp
qed

lemma getAppleCell_all_occupied:
  assumes "\<forall>c. 0 \<le> c \<and> c < BOARD_SIZE ^ 2 - 1 \<longrightarrow> isOverlappingSnakeCell sn c"
    and "validDraws draws"
  shows "getAppleCell sn draws = Inl OutOfDraws"
proof (cases draws)
  case Nil
  then show ?thesis by (simp add: getAppleCell_def)
next
  case (Cons u us)
  then have "0 \<le> u" "u < 1" "validDraws us"
    using assms(2) by (simp_all add: validDraws_def)
  then have "isOverlappingSnakeCell sn (getRandomCell u)"
    using assms(1) getRandomCell_range by blast
  then show ?thesis
    using getAppleLoop_all_occupied [OF assms(1) \<open>validDraws us\<close>] Cons
    by (simp add: getAppleCell_def)
qed

lemma positions_snakeOnAllButLastCell:
  "position ` set snakeOnAllButLastCell = {0..<143}"
proof -
  have "position ` set snakeOnAllButLastCell = int ` {0..<143}"
    by (simp add: snakeOnAllButLastCell_def image_image)
  also have "\<dots> = {0..<143}"
  proof (intro equalityI subsetI)
    fix x :: int
    assume "x \<in> {0..<143}"
    then have "x = int (nat x)" and "nat x \<in> {0..<143}"
      by auto
    then show "x \<in> int ` {0..<143}"
      by (rule image_eqI)
  qed auto
  finally show ?thesis .
qed

section \<open>Reachable states\<close>

text \<open>Reachability along a sequence of events.\<close>

lemma reachable_run:
  "reachable s \<Longrightarrow> list_all (\<lambda>e. validDraws (snd e)) es \<Longrightarrow> run es s = Inr s'
     \<Longrightarrow> reachable s'"
proof (induction es arbitrary: s)
  case Nil
  then show ?case by simp
next
  case (Cons e es)
  obtain ev draws where e: "e = (ev, draws)"
    by (cases e)
  with Cons.prems obtain m where m: "step ev draws s = Inr m" and r: "run es m = Inr s'"
    by (auto split: sum.splits)
  have "reachable m"
    using Cons.prems(1,2) m e by (auto intro: reachable_step)
  then show ?case
    using Cons.IH r Cons.prems(2) by simp
qed

lemma reachable_initial_cell:
  assumes "0 \<le> a" and "a < 143" and "a \<notin> {73, 74, 75, 76}"
  shows "reachable (initialState a)"
proof (rule reachable_init)
  show "validDraws [real_of_int a / 143]"
    using assms by (simp add: validDraws_cell)
  show "getAppleCell initialSnake [real_of_int a / 143] = Inr a"
    using assms
    by (intro getAppleCell_free_cell) (simp add: isOverlappingSnakeCell_def initialSnake_eq)
qed

lemma reachable_initial_77: "reachable (initialState 77)"
  by (rule reachable_init [of "[555 / 1024]"])
    (simp_all add: validDraws_def getAppleCell_def getRandomCell_def BOARD_SIZE_def
      isOverlappingSnakeCell_def initialSnake_eq)

section \<open>The collision check (C1)\<close>

text \<open>
  C1. For a snake with at least one segment and an optional candidate direction \<open>d\<close>
  (the head's own direction when \<open>d\<close> is absent), let \<open>n\<close> be the head's one-step
  successor cell. \<open>willCollide\<close> returns true exactly when \<open>n < 0\<close>, or
  \<open>n \<ge> N\<^sup>2\<close>, or \<open>n\<close> is in column 0 while the head was in column \<open>N - 1\<close> and the step
  was to the right, or the head is in column 0, the step was to the left and \<open>n\<close> is
  one less than the head's position, or \<open>n\<close> is the position of a segment of the snake
  (the last segment included).
\<close>

theorem willCollide_characterisation:
  "willCollide d (headCell # rest) =
     Inr (let dir = (case d of Some x \<Rightarrow> x | None \<Rightarrow> direction headCell);
              n = getOneStepMove dir (position headCell)
          in n < 0 \<or> n \<ge> BOARD_SIZE ^ 2 \<or>
             (col n = 0 \<and> col (position headCell) = BOARD_SIZE - 1 \<and> dir = Right) \<or>
             (col (position headCell) = 0 \<and> dir = Left \<and> n = position headCell - 1) \<or>
             (\<exists>c\<in>set (headCell # rest). position c = n))"
proof -
  define dir where "dir = (case d of Some x \<Rightarrow> x | None \<Rightarrow> direction headCell)"
  define n where "n = getOneStepMove dir (position headCell)"
  have r: "(n mod BOARD_SIZE = 0 \<and> position headCell = n - 1)
           \<longleftrightarrow> (col n = 0 \<and> col (position headCell) = BOARD_SIZE - 1 \<and> dir = Right)"
    unfolding n_def by (rule offRight_iff)
  have l: "(position headCell mod BOARD_SIZE = 0 \<and> n = position headCell - 1)
           \<longleftrightarrow> (col (position headCell) = 0 \<and> dir = Left \<and> n = position headCell - 1)"
    unfolding n_def by (rule offLeft_iff)
  have "willCollide d (headCell # rest) =
          Inr (n < 0 \<or> (n mod BOARD_SIZE = 0 \<and> position headCell = n - 1) \<or>
               n \<ge> BOARD_SIZE ^ 2 \<or>
               (position headCell mod BOARD_SIZE = 0 \<and> n = position headCell - 1) \<or>
               (\<exists>c\<in>set (headCell # rest). position c = n))"
    by (simp add: willCollide_def Let_def js_rem_eq_0_iff find_position_iff n_def dir_def
          del: find.simps)
  also have "\<dots> =
          Inr (n < 0 \<or> n \<ge> BOARD_SIZE ^ 2 \<or>
               (col n = 0 \<and> col (position headCell) = BOARD_SIZE - 1 \<and> dir = Right) \<or>
               (col (position headCell) = 0 \<and> dir = Left \<and> n = position headCell - 1) \<or>
               (\<exists>c\<in>set (headCell # rest). position c = n))"
    unfolding r l by auto
  finally show ?thesis
    by (simp add: Let_def n_def dir_def)
qed

text \<open>At the right edge, moving right: the third disjunct alone holds.\<close>

theorem willCollide_characterisation_witness:
  "willCollide None snakeAtRightEdge = Inr True"
  using willCollide_characterisation [of None "hd snakeAtRightEdge" "tl snakeAtRightEdge"]
  by (simp add: snakeAtRightEdge_def col_def BOARD_SIZE_def)

section \<open>Eating the apple (C2)\<close>

text \<open>
  A move onto the apple, when the apple is not on cell 0 and the placement loop
  returns: in the same event the snake becomes the moved snake with one segment
  appended behind its last one, and the apple moves to a cell that no segment of the
  grown snake is on.
\<close>

lemma tick_onto_apple_grows:
  assumes "\<not> hasLost s" and "snake s = c # cs"
    and "willCollide None (snake s) = Inr False"
    and "getOneStepMove (direction c) (position c) = apple s" and "apple s \<noteq> 0"
    and "validDraws draws"
    and "getAppleCell (grownSnake (moveSnake (direction c) (snake s))) draws = Inr a'"
  shows "advanceTick draws s =
           Inr (s\<lparr>snake := grownSnake (moveSnake (direction c) (snake s)), apple := a'\<rparr>) \<and>
         \<not> isOverlappingSnakeCell (grownSnake (moveSnake (direction c) (snake s))) a'"
proof -
  let ?m = "s\<lparr>snake := moveSnake (direction c) (snake s)\<rparr>"
  obtain c' cs' where m: "moveSnake (direction c) (c # cs) = c' # cs'"
    using moveSnake_not_Nil [of "direction c" c cs]
    by (cases "moveSnake (direction c) (c # cs)") simp_all
  have "position c' = apple s"
    using moveSnake_head_position [of "direction c" c cs] m assms(4) by simp
  then have "eatApple draws ?m = Inr (?m\<lparr>snake := grownSnake (snake ?m), apple := a'\<rparr>)"
    using m assms(2,5,7) by (intro eatApple_on_apple [of _ c' cs']) simp_all
  then show ?thesis
    using advanceTick_moves [OF assms(1-3)] getAppleCell_result [OF assms(6,7)]
    by simp
qed

lemma key_onto_apple_grows:
  assumes "snake s = c # cs" and "\<not> isReverse (direction c) nd"
    and "willCollide (Some nd) (snake s) = Inr False"
    and "getOneStepMove nd (position c) = apple s" and "apple s \<noteq> 0"
    and "validDraws draws"
    and "getAppleCell (grownSnake (moveSnake nd (snake s))) draws = Inr a'"
  shows "requestDirectionChange nd draws s =
           Inr (s\<lparr>snake := grownSnake (moveSnake nd (snake s)), apple := a'\<rparr>) \<and>
         \<not> isOverlappingSnakeCell (grownSnake (moveSnake nd (snake s))) a'"
proof -
  let ?m = "s\<lparr>snake := moveSnake nd (snake s)\<rparr>"
  obtain c' cs' where m: "moveSnake nd (c # cs) = c' # cs'"
    using moveSnake_not_Nil [of nd c cs]
    by (cases "moveSnake nd (c # cs)") simp_all
  have "position c' = apple s"
    using moveSnake_head_position [of nd c cs] m assms(4) by (simp split: if_splits)
  then have "eatApple draws ?m = Inr (?m\<lparr>snake := grownSnake (snake ?m), apple := a'\<rparr>)"
    using m assms(1,5,7) by (intro eatApple_on_apple [of _ c' cs']) simp_all
  then show ?thesis
    using requestDirectionChange_moves [OF assms(1-3)] getAppleCell_result [OF assms(6,7)]
    by simp
qed

text \<open>
  After growing, the effect runs once more (the apple has changed) and finds nothing
  to eat: the new apple is on no segment.
\<close>

lemma eatApple_settles:
  assumes "validDraws draws" and "eatApple draws s = Inr s'"
  shows "eatApple draws' s' = Inr s'"
proof (cases "snake s")
  case Nil
  with assms show ?thesis by (simp add: eatApple_def)
next
  case (Cons c cs)
  show ?thesis
  proof (cases "position c = apple s \<and> apple s \<noteq> 0")
    case False
    then have "eatApple draws s = Inr s"
      using eatApple_off_apple [OF Cons] by auto
    with assms False Cons show ?thesis
      using eatApple_off_apple [OF Cons] by auto
  next
    case True
    then obtain a' where g: "getAppleCell (grownSnake (snake s)) draws = Inr a'"
      and s': "s' = s\<lparr>snake := grownSnake (snake s), apple := a'\<rparr>"
      using assms(2) Cons
      by (auto simp: eatApple_def grownSnake_def Let_def split: sum.splits)
    have "\<not> isOverlappingSnakeCell (grownSnake (snake s)) a'"
      using getAppleCell_result [OF assms(1) g] by simp
    then have "position c \<noteq> a'"
      using Cons by (auto simp: isOverlappingSnakeCell_iff grownSnake_def)
    then show ?thesis
      using s' Cons
        eatApple_off_apple
          [of s' c
            "cs @ [(last (snake s))
                     \<lparr>position :=
                        behindLastCell (direction (last (snake s)))
                          (position (last (snake s)))\<rparr>]"]
      by (simp add: grownSnake_def)
  qed
qed


text \<open>
  The state of the next theorem is reachable: from the initial state with the apple on
  cell 0, a tick, the Up key, five ticks, the Left key and three ticks.
\<close>

lemma reachable_snakeBesideCorner:
  "reachable \<lparr>snake = snakeBesideCorner, apple = 0, hasLost = False\<rparr>"
proof (rule reachable_run)
  show "reachable (initialState 0)"
    using reachable_initial_cell [of 0] by simp
  show "list_all (\<lambda>e. validDraws (snd e))
          ([(Tick, []), (KeyDown Up, [])] @ replicate 5 (Tick, []) @
           [(KeyDown Left, [])] @ replicate 3 (Tick, []))"
    by (simp add: validDraws_def list_all_iff)
  show "run ([(Tick, []), (KeyDown Up, [])] @ replicate 5 (Tick, []) @
             [(KeyDown Left, [])] @ replicate 3 (Tick, [])) (initialState 0)
          = Inr \<lparr>snake = snakeBesideCorner, apple = 0, hasLost = False\<rparr>"
    by (simp add: numeral_eq_Suc initialState_def initialSnake_eq snakeBesideCorner_def
        eval_defs)
qed

text \<open>
  C2 says that every move of the head onto the apple grows the snake and re-places the
  apple. The effect tests \<^verbatim>\<open>headPosition && headPosition === apple\<close>, and the number 0
  is falsy: with the apple on cell 0 (a cell \<open>getRandomCell\<close> returns), a tick that
  moves the head from cell 1 onto it leaves four segments and the apple under the head,
  whatever the random values.
\<close>

theorem apple_on_cell_0_is_not_eaten:
  "advanceTick draws \<lparr>snake = snakeBesideCorner, apple = 0, hasLost = False\<rparr> =
     Inr \<lparr>snake =
            [\<lparr>direction = Left, directionChanges = [], position = 0, isHead = Some True\<rparr>,
             \<lparr>direction = Left, directionChanges = [], position = 1, isHead = Some False\<rparr>,
             \<lparr>direction = Left, directionChanges = [], position = 2, isHead = Some False\<rparr>,
             \<lparr>direction = Left, directionChanges = [], position = 3,
              isHead = Some False\<rparr>],
          apple = 0, hasLost = False\<rparr>"
  by (simp add: snakeBesideCorner_def eval_defs)

section \<open>The lost state (C3)\<close>

text \<open>A tick of a lost game changes nothing: no timer is installed.\<close>

lemma advanceTick_lost: "hasLost s \<Longrightarrow> advanceTick draws s = Inr s"
  by (simp add: advanceTick_def)

text \<open>
  The lost game of the next theorem is reachable: eight ticks from the initial state
  with the apple on cell 5; the eighth finds the head in the last column.
\<close>

lemma reachable_lostAtRightEdge: "reachable lostAtRightEdge"
proof (rule reachable_run)
  show "reachable (initialState 5)"
    using reachable_initial_cell [of 5] by simp
  show "list_all (\<lambda>e. validDraws (snd e)) (replicate 8 (Tick, []))"
    by (simp add: validDraws_def list_all_iff)
  show "run (replicate 8 (Tick, [])) (initialState 5) = Inr lostAtRightEdge"
    by (simp add: numeral_eq_Suc initialState_def initialSnake_eq lostAtRightEdge_def
        snakeAtRightEdge_def eval_defs)
qed

text \<open>
  C3 says that a key press changes nothing either once the game is lost. The key
  handler does not read the lost flag: in the game lost at the right edge, the Up key
  moves the head from 83 to 71 and the body follows.
\<close>

theorem key_press_moves_lost_snake:
  "requestDirectionChange Up [] lostAtRightEdge =
     Inr \<lparr>snake =
            [\<lparr>direction = Up, directionChanges = [], position = 71, isHead = Some True\<rparr>,
             \<lparr>direction = Up, directionChanges = [], position = 83,
              isHead = Some False\<rparr>,
             \<lparr>direction = Right,
              directionChanges = [\<lparr>change_direction = Up, change_position = 83\<rparr>],
              position = 82, isHead = Some False\<rparr>,
             \<lparr>direction = Right,
              directionChanges = [\<lparr>change_direction = Up, change_position = 83\<rparr>],
              position = 81, isHead = Some False\<rparr>],
          apple = 5, hasLost = True\<rparr>"
  by (simp add: requestDirectionChange_def lostAtRightEdge_def snakeAtRightEdge_def
      onKeyDown_def isReverse_def willCollide_def BOARD_SIZE_def js_rem_def moveSnake_def
      moveCell_def growthEffect_def eatApple_def)

section \<open>Turn propagation (C4)\<close>

lemma moveSnake_nth_turn:
  assumes "i < length sn" and "direction (sn ! 0) \<noteq> nd"
  shows "moveSnake nd sn ! i =
     (if i = 0
      then \<lparr>direction = nd, directionChanges = [],
            position = getOneStepMove nd (position (sn ! 0)), isHead = Some True\<rparr>
      else moveCell nd (Some (position (sn ! 0))) False (sn ! i))"
  using assms by (cases sn) (auto simp: moveSnake_Cons nth_Cons')

lemma moveSnake_nth_straight:
  assumes "i < length sn" and "direction (sn ! 0) = nd"
  shows "moveSnake nd sn ! i = moveCell nd None (i = 0) (sn ! i)"
  using assms by (cases sn) (auto simp: moveSnake_Cons nth_Cons')

lemma straightBehind_nth:
  "straightBehind d q cs \<Longrightarrow> i < length cs \<Longrightarrow>
     direction (cs ! i) = d \<and> directionChanges (cs ! i) = [] \<and>
     position (cs ! i) = q - int (Suc i) * stepOf d"
proof (induction cs arbitrary: q i)
  case Nil
  then show ?case by simp
next
  case (Cons c cs)
  show ?case
  proof (cases i)
    case 0
    with Cons.prems show ?thesis
      by (simp add: getOneStepMove_stepOf)
  next
    case (Suc k)
    with Cons.prems have "straightBehind d (position c) cs" and "k < length cs"
      by simp_all
    from Cons.IH [OF this] Cons.prems(1) Suc show ?thesis
      by (simp add: getOneStepMove_stepOf algebra_simps)
  qed
qed

lemma straightSnake_nth:
  assumes "straightSnake d p sn" and "i < length sn"
  shows "direction (sn ! i) = d \<and> directionChanges (sn ! i) = [] \<and>
         position (sn ! i) = p - int i * stepOf d"
proof (cases sn)
  case Nil
  with assms show ?thesis by simp
next
  case (Cons h cs)
  with assms(1) have h: "direction h = d" "directionChanges h = []" "position h = p"
    and b: "straightBehind d p cs"
    by (simp_all add: straightSnake_def)
  show ?thesis
  proof (cases i)
    case 0
    with Cons h show ?thesis by simp
  next
    case (Suc k)
    with assms(2) Cons have "k < length cs" by simp
    from straightBehind_nth [OF b this] Cons Suc show ?thesis by simp
  qed
qed

text \<open>The first move: the head turns.\<close>

lemma first_move_nth:
  assumes "straightSnake d p sn" and "d' \<noteq> d" and "i < length sn"
  shows "moveSnake d' sn ! i = afterTurn d d' p 1 i"
proof -
  have "0 < length sn"
    using assms(3) by (cases sn) simp_all
  from straightSnake_nth [OF assms(1) this]
  have h: "direction (sn ! 0) = d" "position (sn ! 0) = p"
    by simp_all
  have c: "direction (sn ! i) = d" "directionChanges (sn ! i) = []"
    "position (sn ! i) = p - int i * stepOf d"
    using straightSnake_nth [OF assms(1) assms(3)] by simp_all
  have m: "moveSnake d' sn ! i =
     (if i = 0
      then \<lparr>direction = d', directionChanges = [],
            position = getOneStepMove d' p, isHead = Some True\<rparr>
      else moveCell d' (Some p) False (sn ! i))"
    using moveSnake_nth_turn [OF assms(3), of d'] h assms(2) by simp
  show ?thesis
  proof (cases "i = 0")
    case True
    with m show ?thesis
      by (simp add: afterTurn_def getOneStepMove_stepOf)
  next
    case False
    have "(p - int i * stepOf d + stepOf d = p) = (i = 1)"
    proof -
      have "(p - int i * stepOf d + stepOf d = p) = ((int i - 1) * stepOf d = 0)"
        by (simp add: algebra_simps)
      also have "\<dots> = (i = 1)"
        using stepOf_nonzero [of d] by auto
      finally show ?thesis .
    qed
    then show ?thesis
      using m False c
      by (auto simp: afterTurn_def moveCell_def getOneStepMove_stepOf Let_def algebra_simps)
  qed
qed


text \<open>Every later move: the head keeps its direction.\<close>

lemma later_move_nth:
  assumes "\<forall>k<length sn. sn ! k = afterTurn d d' p j k" and "0 < j" and "i < length sn"
  shows "moveSnake d' sn ! i = afterTurn d d' p (Suc j) i"
proof -
  have "0 < length sn"
    using assms(3) by (cases sn) simp_all
  with assms(1) have "sn ! 0 = afterTurn d d' p j 0"
    by blast
  then have "direction (sn ! 0) = d'"
    by (simp add: afterTurn_def)
  from moveSnake_nth_straight [OF assms(3) this]
  have m: "moveSnake d' sn ! i = moveCell d' None (i = 0) (afterTurn d d' p j i)"
    using assms(1,3) by simp
  have e: "(p - int (i - j) * stepOf d + stepOf d = p) = (i = Suc j)" if "j < i"
  proof -
    have "(p - int (i - j) * stepOf d + stepOf d = p) = ((int (i - j) - 1) * stepOf d = 0)"
      by (simp add: algebra_simps)
    also have "\<dots> = (i = Suc j)"
      using stepOf_nonzero [of d] that by auto
    finally show ?thesis .
  qed
  show ?thesis
  proof (cases "j < i")
    case True
    show ?thesis
    proof (cases "i = Suc j")
      case True
      then show ?thesis
        using m e [of ] \<open>0 < j\<close>
        by (simp add: afterTurn_def moveCell_def getOneStepMove_stepOf)
    next
      case False
      with True have "Suc j < i" by simp
      then have "int (i - j) = int (i - Suc j) + 1"
        by simp
      then show ?thesis
        using m e True False \<open>Suc j < i\<close>
        by (simp add: afterTurn_def moveCell_def getOneStepMove_stepOf algebra_simps)
    qed
  next
    case False
    then have "int (Suc j - i) = int (j - i) + 1"
      by simp
    then show ?thesis
      using m False
      by (simp add: afterTurn_def moveCell_def getOneStepMove_stepOf algebra_simps)
  qed
qed

lemma moves_after_turn:
  assumes "straightSnake d p sn" and "d' \<noteq> d" and "0 < j"
  shows "length ((moveSnake d' ^^ j) sn) = length sn \<and>
         (\<forall>i<length sn. (moveSnake d' ^^ j) sn ! i = afterTurn d d' p j i)"
  using \<open>0 < j\<close>
proof (induction j)
  case 0
  then show ?case by simp
next
  case (Suc j)
  show ?case
  proof (cases "j = 0")
    case True
    then show ?thesis
      using first_move_nth [OF assms(1,2)] by simp
  next
    case False
    then have ih: "length ((moveSnake d' ^^ j) sn) = length sn"
      "\<forall>i<length ((moveSnake d' ^^ j) sn). (moveSnake d' ^^ j) sn ! i = afterTurn d d' p j i"
      using Suc.IH by simp_all
    have "moveSnake d' ((moveSnake d' ^^ j) sn) ! i = afterTurn d d' p (Suc j) i"
      if "i < length sn" for i
      using later_move_nth [OF ih(2), of i] False that ih(1) by simp
    then show ?thesis
      using ih(1) by simp
  qed
qed

text \<open>
  C4. Take a straight snake of length \<open>L\<close> with nothing pending whose head stands on
  cell \<open>p\<close>, and let the head turn there from \<open>d\<close> to \<open>d'\<close>: the next move and all
  later ones are \<open>moveSnake d'\<close>, so no further turn is requested. Ticks are counted
  for the head as for the segments, by the position after the move: tick \<open>k\<close> is the
  one that left the head on \<open>p\<close>, and the state after \<open>j\<close> more moves is that of tick
  \<open>k + j\<close>. For the \<open>i\<close>-th segment behind the head, \<open>1 \<le> i < L\<close>, after \<open>j\<close> moves:
  its direction is \<open>d\<close> while \<open>j < i\<close> and \<open>d'\<close> from \<open>j = i\<close> on, so it changes
  exactly once, in move \<open>i\<close>; its position after the move is \<open>p\<close> exactly when
  \<open>j = i\<close>; the marker \<open>(d', p)\<close> is in its queue from the first move until then and
  the queue is empty afterwards; and from then on it is where the head was \<open>i\<close> moves
  earlier.
\<close>

theorem turn_propagates_one_segment_per_tick:
  assumes "straightSnake d p sn" and "d' \<noteq> d" and "0 < i" and "i < length sn"
  shows "direction ((moveSnake d' ^^ j) sn ! i) = (if j < i then d else d') \<and>
         (position ((moveSnake d' ^^ j) sn ! i) = p) = (j = i) \<and>
         (0 < j \<longrightarrow>
            directionChanges ((moveSnake d' ^^ j) sn ! i) =
              (if j < i then [\<lparr>change_direction = d', change_position = p\<rparr>] else [])) \<and>
         (i \<le> j \<longrightarrow>
            position ((moveSnake d' ^^ j) sn ! i) =
              position ((moveSnake d' ^^ (j - i)) sn ! 0))"
proof (cases "j = 0")
  case True
  then show ?thesis
    using straightSnake_nth [OF assms(1,4)] assms(3) stepOf_nonzero [of d] by simp
next
  case False
  then have a: "(moveSnake d' ^^ j) sn ! i = afterTurn d d' p j i"
    using moves_after_turn [OF assms(1,2), of j] assms(4) by simp
  have "0 < length sn"
    using assms(4) by (cases sn) simp_all
  have h: "position ((moveSnake d' ^^ (j - i)) sn ! 0) = p + int (j - i) * stepOf d'"
  proof (cases "j - i = 0")
    case True
    then show ?thesis
      using straightSnake_nth [OF assms(1) \<open>0 < length sn\<close>] by simp
  next
    case False
    then show ?thesis
      using moves_after_turn [OF assms(1,2), of "j - i"] \<open>0 < length sn\<close>
      by (simp add: afterTurn_def)
  qed
  show ?thesis
    unfolding a h
    using stepOf_nonzero [of d] stepOf_nonzero [of d'] assms(3)
    by (auto simp: afterTurn_def)
qed

theorem turn_propagates_one_segment_per_tick_witness:
  "straightSnake Right 76 initialSnake \<and>
   direction ((moveSnake Up ^^ 1) initialSnake ! 2) = Right \<and>
   directionChanges ((moveSnake Up ^^ 1) initialSnake ! 2)
     = [\<lparr>change_direction = Up, change_position = 76\<rparr>] \<and>
   direction ((moveSnake Up ^^ 2) initialSnake ! 2) = Up \<and>
   position ((moveSnake Up ^^ 2) initialSnake ! 2) = 76 \<and>
   directionChanges ((moveSnake Up ^^ 2) initialSnake ! 2) = []"
proof -
  have s: "straightSnake Right 76 initialSnake"
    by (simp add: straightSnake_def initialSnake_eq)
  have l: "2 < length initialSnake"
    by (simp add: initialSnake_eq)
  show ?thesis
    using s turn_propagates_one_segment_per_tick [OF s _ _ l, of Up 1]
      turn_propagates_one_segment_per_tick [OF s _ _ l, of Up 2]
    by simp
qed

section \<open>Apple placement (C5)\<close>

text \<open>
  C5 says that the loop of \<open>placeApple\<close> can leave whenever the snake leaves a cell of
  the board free. \<open>getRandomCell\<close> multiplies by \<open>N\<^sup>2 - 1\<close>, so it never returns cell
  143: for the snake on the cells 0 to 142, which has 143 segments and leaves cell 143
  free, no values of \<^verbatim>\<open>Math.random()\<close>, however many, make the loop leave.
\<close>

theorem apple_loop_never_exits:
  assumes "validDraws draws"
  shows "length snakeOnAllButLastCell < 144 \<and>
         \<not> isOverlappingSnakeCell snakeOnAllButLastCell 143 \<and>
         getAppleCell snakeOnAllButLastCell draws = Inl OutOfDraws"
proof -
  have "getAppleCell snakeOnAllButLastCell draws = Inl OutOfDraws"
    by (rule getAppleCell_all_occupied [OF _ assms])
      (simp add: isOverlappingSnakeCell_iff positions_snakeOnAllButLastCell BOARD_SIZE_def)
  then show ?thesis
    by (simp add: isOverlappingSnakeCell_iff positions_snakeOnAllButLastCell)
      (simp add: snakeOnAllButLastCell_def)
qed

theorem apple_loop_never_exits_witness:
  "validDraws [0, 1 / 2, 127 / 128] \<and>
   getAppleCell snakeOnAllButLastCell [0, 1 / 2, 127 / 128] = Inl OutOfDraws"
  using apple_loop_never_exits [of "[0, 1 / 2, 127 / 128]"]
  by (simp add: validDraws_def)

section \<open>Distinct cells (C6)\<close>

lemma run_loopTrace:
  "run loopTrace (initialState 77) =
     Inr \<lparr>snake = snakeAfterLoop, apple = 0, hasLost = False\<rparr>"
  by (simp add: loopTrace_def initialState_def initialSnake_eq snakeAfterLoop_def eval_defs)

text \<open>
  C6 says that in every reachable state the segments are on pairwise distinct cells.
  The growth effect puts the new segment one step behind the last one against the last
  segment's \<^emph>\<open>stored\<close> direction, and does not look whether the cell is taken. When
  the last segment has just turned, that cell is not the one it came from. After the
  events of \<open>loopTrace\<close> the last segment stands on 78 and has just turned Up, the head
  eats the apple on 90, and the new segment is put on 78 + 12 = 90, under the head.
\<close>

theorem growth_onto_head:
  "reachable \<lparr>snake = snakeAfterLoop, apple = 0, hasLost = False\<rparr> \<and>
   \<not> distinct (map position snakeAfterLoop)"
proof
  show "reachable \<lparr>snake = snakeAfterLoop, apple = 0, hasLost = False\<rparr>"
    by (rule reachable_run [OF reachable_initial_77 _ run_loopTrace])
      (simp add: loopTrace_def validDraws_def)
  show "\<not> distinct (map position snakeAfterLoop)"
    by (simp add: snakeAfterLoop_def)
qed

section \<open>Reversals and collisions (C7, C8)\<close>

text \<open>
  C7. In a state that is not lost, a request for the exact opposite of the head's
  direction changes nothing: snake (positions, directions, pending turns), apple and
  lost flag are as before.
\<close>

theorem reverse_request_is_noop:
  assumes "\<not> hasLost s" and "snake s = headCell # rest"
    and "isReverse (direction headCell) nextDirection"
  shows "requestDirectionChange nextDirection draws s = Inr s"
  using assms by (simp add: requestDirectionChange_def onKeyDown_def growthEffect_refl)

theorem reverse_request_is_noop_witness:
  "requestDirectionChange Left [] (initialState 5) = Inr (initialState 5)"
  by (rule reverse_request_is_noop [of _ "hd initialSnake" "tl initialSnake"])
    (simp_all add: initialState_def initialSnake_eq isReverse_def)

text \<open>
  C8. In a state that is not lost, when the collision check is reached and answers
  true (for the requested direction of a key press that is not a reversal, which
  returns before the check; for the head's direction on a tick), the new state is the
  old one with the lost flag set: no segment, and not the apple, has changed.
\<close>

theorem collision_only_sets_lost:
  assumes "\<not> hasLost s"
  shows "(snake s = headCell # rest \<and> \<not> isReverse (direction headCell) nextDirection \<and>
          willCollide (Some nextDirection) (snake s) = Inr True
            \<longrightarrow> requestDirectionChange nextDirection draws s = Inr (s\<lparr>hasLost := True\<rparr>)) \<and>
         (willCollide None (snake s) = Inr True
            \<longrightarrow> advanceTick draws s = Inr (s\<lparr>hasLost := True\<rparr>))"
proof (intro conjI impI)
  assume a: "snake s = headCell # rest \<and> \<not> isReverse (direction headCell) nextDirection \<and>
          willCollide (Some nextDirection) (snake s) = Inr True"
  then have hs: "snake s = headCell # rest"
    and nr: "\<not> isReverse (direction headCell) nextDirection"
    and wc: "willCollide (Some nextDirection) (headCell # rest) = Inr True"
    by auto
  have "onKeyDown nextDirection s = Inr (s\<lparr>hasLost := True\<rparr>)"
    by (simp add: onKeyDown_def hs nr wc)
  then show "requestDirectionChange nextDirection draws s = Inr (s\<lparr>hasLost := True\<rparr>)"
    by (simp add: requestDirectionChange_def growthEffect_hasLost hs)
next
  assume c: "willCollide None (snake s) = Inr True"
  then obtain h t where "snake s = h # t"
    by (cases "snake s") (simp_all add: willCollide_def)
  then have hs: "snake s = h # t" and wc: "willCollide None (h # t) = Inr True"
    using c by auto
  have "onInterval s = Inr (s\<lparr>hasLost := True\<rparr>)"
    by (simp add: onInterval_def hs wc)
  then show "advanceTick draws s = Inr (s\<lparr>hasLost := True\<rparr>)"
    using assms by (simp add: advanceTick_def growthEffect_hasLost hs)
qed

theorem collision_only_sets_lost_witness:
  "requestDirectionChange Right [] \<lparr>snake = snakeAtRightEdge, apple = 5, hasLost = False\<rparr>
     = Inr \<lparr>snake = snakeAtRightEdge, apple = 5, hasLost = True\<rparr> \<and>
   advanceTick [] \<lparr>snake = snakeAtRightEdge, apple = 5, hasLost = False\<rparr>
     = Inr \<lparr>snake = snakeAtRightEdge, apple = 5, hasLost = True\<rparr>"
  using collision_only_sets_lost
    [of "\<lparr>snake = snakeAtRightEdge, apple = 5, hasLost = False\<rparr>"
        "hd snakeAtRightEdge" "tl snakeAtRightEdge" Right "[]"]
  by (simp add: snakeAtRightEdge_def willCollide_def isReverse_def BOARD_SIZE_def js_rem_def)

section \<open>The first tick (C9)\<close>

text \<open>
  C9, as stated: from the initial state (segments 76, 75, 74, 73, all moving right, not
  lost) one tick yields the segments 77, 76, 75, 74. The initial state also holds an
  apple, on any free cell that \<open>getRandomCell\<close> can return, and cell 77 is one
  (lemma \<open>reachable_initial_77\<close>). With the apple there the tick moves the head onto
  it and the snake grows in the same tick: five segments, the last one on 73.
\<close>

theorem first_tick_onto_apple_grows:
  "advanceTick [1 / 2] (initialState 77) =
     Inr \<lparr>snake =
            snakeAfterFirstTick @
            [\<lparr>direction = Right, directionChanges = [], position = 73,
              isHead = Some False\<rparr>],
          apple = 71, hasLost = False\<rparr> \<and>
   map position
     (snakeAfterFirstTick @
      [\<lparr>direction = Right, directionChanges = [], position = 73, isHead = Some False\<rparr>])
     = [77, 76, 75, 74, 73]"
  by (simp add: advanceTick_def initialState_def initialSnake_eq onInterval_def
      willCollide_def BOARD_SIZE_def js_rem_def moveSnake_def moveCell_def growthEffect_def
      eatApple_def getAppleCell_def getRandomCell_def isOverlappingSnakeCell_def
      snakeAfterFirstTick_def)

text \<open>
  C9, amended: from the initial state with the apple on any cell but 77, one tick
  yields the segments 77, 76, 75, 74, all still moving right with no pending turns, the
  apple where it was, and the game not lost.
\<close>

theorem first_tick_moves_right:
  "a \<noteq> 77 \<Longrightarrow>
   advanceTick draws (initialState a) =
     Inr \<lparr>snake = snakeAfterFirstTick, apple = a, hasLost = False\<rparr>"
  by (simp add: advanceTick_def initialState_def initialSnake_eq onInterval_def
      willCollide_def BOARD_SIZE_def js_rem_def moveSnake_def moveCell_def growthEffect_def
      eatApple_def snakeAfterFirstTick_def)

theorem first_tick_moves_right_witness:
  "advanceTick [] (initialState 0) =
     Inr \<lparr>snake = snakeAfterFirstTick, apple = 0, hasLost = False\<rparr> \<and>
   map position snakeAfterFirstTick = [77, 76, 75, 74] \<and>
   map direction snakeAfterFirstTick = [Right, Right, Right, Right]"
  using first_tick_moves_right [of 0 "[]"]
  by (simp add: snakeAfterFirstTick_def)

section \<open>The head's pending turns (C10)\<close>

lemma moveCell_no_changes:
  "directionChanges c = [] \<Longrightarrow> directionChanges (moveCell nd None b c) = []"
  by (simp add: moveCell_def)

lemma headQueueEmpty_moveSnake:
  "headQueueEmpty sn \<Longrightarrow> headQueueEmpty (moveSnake nd sn)"
  by (cases sn) (simp_all add: headQueueEmpty_def moveSnake_def moveCell_no_changes)

lemma headQueueEmpty_onKeyDown:
  "headQueueEmpty (snake s) \<Longrightarrow> onKeyDown nd s = Inr s' \<Longrightarrow> headQueueEmpty (snake s')"
  by (auto simp: onKeyDown_def headQueueEmpty_moveSnake
      split: list.splits if_splits sum.splits bool.splits)

lemma headQueueEmpty_onInterval:
  "headQueueEmpty (snake s) \<Longrightarrow> onInterval s = Inr s' \<Longrightarrow> headQueueEmpty (snake s')"
  by (auto simp: onInterval_def headQueueEmpty_moveSnake
      split: list.splits if_splits sum.splits bool.splits)

lemma headQueueEmpty_append:
  "headQueueEmpty sn \<Longrightarrow> headQueueEmpty (sn @ cs)"
  by (cases sn) (simp_all add: headQueueEmpty_def)

lemma headQueueEmpty_eatApple:
  "headQueueEmpty (snake s) \<Longrightarrow> eatApple draws s = Inr s' \<Longrightarrow> headQueueEmpty (snake s')"
  using eatApple_snake [of draws s s'] by (auto simp: headQueueEmpty_append)

lemma headQueueEmpty_growthEffect:
  "headQueueEmpty (snake new) \<Longrightarrow> growthEffect draws old new = Inr s'
     \<Longrightarrow> headQueueEmpty (snake s')"
  using growthEffect_cases [of draws old new s'] by (auto simp: headQueueEmpty_eatApple)

lemma headQueueEmpty_step:
  assumes "headQueueEmpty (snake s)" and "step ev draws s = Inr s'"
  shows "headQueueEmpty (snake s')"
proof (cases ev)
  case (KeyDown nd)
  with assms show ?thesis
    by (auto simp: requestDirectionChange_def split: sum.splits
        dest: headQueueEmpty_onKeyDown headQueueEmpty_growthEffect)
next
  case Tick
  with assms show ?thesis
    by (auto simp: advanceTick_def split: sum.splits if_splits
        dest: headQueueEmpty_onInterval headQueueEmpty_growthEffect)
qed

text \<open>
  C10. In every state reachable from the initial state by key presses and ticks,
  growth included, the snake has a head and the head's \<^verbatim>\<open>directionChanges\<close> is empty.
\<close>

theorem head_has_no_pending_turns:
  "reachable s \<Longrightarrow> snake s \<noteq> [] \<and> directionChanges (hd (snake s)) = []"
proof -
  assume "reachable s"
  then have "headQueueEmpty (snake s)"
  proof (induction rule: reachable.induct)
    case (reachable_init draws a)
    show ?case
      by (simp add: initialState_def initialSnake_eq headQueueEmpty_def)
  next
    case (reachable_step s draws ev s')
    then show ?case
      using headQueueEmpty_step by blast
  qed
  then show ?thesis
    by (cases "snake s") (simp_all add: headQueueEmpty_def)
qed

lemma reachable_stateAfterUpKey: "reachable stateAfterUpKey"
proof (rule reachable_run)
  show "reachable (initialState 71)"
    using reachable_initial_cell [of 71] by simp
  show "list_all (\<lambda>e. validDraws (snd e)) [(KeyDown Up, [])]"
    by (simp add: validDraws_def)
  show "run [(KeyDown Up, [])] (initialState 71) = Inr stateAfterUpKey"
    by (simp add: initialState_def initialSnake_eq stateAfterUpKey_def eval_defs)
qed

theorem head_has_no_pending_turns_witness:
  "reachable stateAfterUpKey \<and> snake stateAfterUpKey \<noteq> [] \<and>
   directionChanges (hd (snake stateAfterUpKey)) = []"
  using head_has_no_pending_turns [OF reachable_stateAfterUpKey] reachable_stateAfterUpKey
  by simp

end
